theory Spec2Isabelle
  imports Complex_Main "HOL-Library.Sublist" "HOL-Library.Log_Nat"
begin

section \<open>Validation results and Python exceptions\<close>

text \<open>
  The validators of \<^verbatim>\<open>pcluster/validators\<close> record their findings by calling
  \<^verbatim>\<open>self._add_failure(message, level, params)\<close>; a validator either returns, leaving
  the recorded failures to its caller, or an exception leaves it. Both are values here:
  \<open>Returned fs\<close> and \<open>Raised e fs\<close>, where \<open>fs\<close> are the failures recorded so far,
  oldest first.
\<close>

datatype FailureLevel = WARNING | ERROR

record ValidationFailure =
  message :: string
  level :: FailureLevel
  failed_params :: "string list"

text \<open>The \<^verbatim>\<open>Error\<close> member of a botocore error response: both entries are read with
  \<^verbatim>\<open>.get\<close>, so either may be missing.\<close>

record error_info =
  Code :: "string option"
  Message :: "string option"

text \<open>
  The exceptions that occur in the modelled code. \<open>ClientError r\<close> carries
  \<^verbatim>\<open>exception.response.get("Error")\<close>; \<open>HTTPError code reason\<close> and \<open>URLError reason\<close> are
  urllib's; the other subclasses of \<^verbatim>\<open>Exception\<close> carry their \<^verbatim>\<open>str()\<close> text.
  \<open>NonException\<close> stands for the subclasses of \<^verbatim>\<open>BaseException\<close> outside
  \<^verbatim>\<open>Exception\<close> (KeyboardInterrupt, SystemExit), which \<^verbatim>\<open>except Exception\<close> does not catch.
\<close>

datatype py_exception =
    ClientError "error_info option"
  | HTTPError int string
  | URLError string
  | ValueError string
  | AttributeError string
  | ZeroDivisionError string
  | KeyError string
  | IndexError string
  | OverflowError string
  | OtherException string
  | NonException string

datatype outcome =
    Returned "ValidationFailure list"
  | Raised py_exception "ValidationFailure list"

fun is_Exception :: "py_exception \<Rightarrow> bool" where
  "is_Exception (NonException s) = False"
| "is_Exception e = True"

fun is_ClientError :: "py_exception \<Rightarrow> bool" where
  "is_ClientError (ClientError r) = True"
| "is_ClientError e = False"

text \<open>Modelled from the spec: \<^verbatim>\<open>Validator._add_failure\<close> of \<^verbatim>\<open>pcluster.models.common\<close> is
  not among the sources. By the spec a validator produces an ordered sequence of
  ValidationFailure records (message, level, offending params), so a call appends one record;
  the offending Params are named by the validator's argument names, and a call without
  params records none.\<close>

definition add_failure ::
  "string \<Rightarrow> FailureLevel \<Rightarrow> string list \<Rightarrow> ValidationFailure list \<Rightarrow> ValidationFailure list" where
  "add_failure msg lvl params fs = fs @ [\<lparr>message = msg, level = lvl, failed_params = params\<rparr>]"

section \<open>Formatting\<close>

text \<open>\<^verbatim>\<open>str\<close> of a Python int: decimal digits, with a minus sign below zero.\<close>

definition digit_char :: "nat \<Rightarrow> char" where
  "digit_char d = ''0123456789'' ! d"

function str_nat :: "nat \<Rightarrow> string" where
  "str_nat n = (if n < 10 then [digit_char n] else str_nat (n div 10) @ [digit_char (n mod 10)])"
  by pat_completeness auto
termination
  by (relation "measure (\<lambda>n. n)") auto

declare str_nat.simps [simp del]

definition str_int :: "int \<Rightarrow> string" where
  "str_int i = (if i < 0 then CHR ''-'' # str_nat (nat (- i)) else str_nat (nat i))"

text \<open>\<^verbatim>\<open>"{0}".format(x)\<close> of a value that may be \<^verbatim>\<open>None\<close>.\<close>

definition str_opt :: "string option \<Rightarrow> string" where
  "str_opt v = (case v of None \<Rightarrow> ''None'' | Some s \<Rightarrow> s)"

text \<open>A placeholder between single quotes, as in \<^verbatim>\<open>"'{0}'"\<close>.\<close>

definition quoted :: "string \<Rightarrow> string" where
  "quoted s = CHR 0x27 # s @ [CHR 0x27]"

text \<open>
  Python's \<^verbatim>\<open>float\<close> is an IEEE double. Converting an int, by \<^verbatim>\<open>float(i)\<close> or as the int operand
  of \<^verbatim>\<open>i * 0.25\<close>, rounds it to 53 significant bits, ties to even, and raises OverflowError when
  the rounded value would be \<open>2^1024\<close> or more, that is from \<open>2^1024 - 2^970\<close> on in absolute
  value. \<open>py_float\<close> gives the double's value as a real number. An int below \<open>2^53\<close> in absolute
  value converts exactly.
\<close>

definition float_limit :: int where
  "float_limit = 2 ^ 1024 - 2 ^ 970"

definition converts_to_float :: "int \<Rightarrow> bool" where
  "converts_to_float i = (\<bar>i\<bar> < float_limit)"

definition round_half_even_53 :: "nat \<Rightarrow> nat" where
  "round_half_even_53 n =
     (if n < 2 ^ 53 then n
      else
        (let e = floorlog 2 n - 53; q = n div 2 ^ e; r = n mod 2 ^ e
         in if 2 ^ e < 2 * r \<or> (2 * r = 2 ^ e \<and> odd q) then (q + 1) * 2 ^ e else q * 2 ^ e))"

definition py_float :: "int \<Rightarrow> py_exception + real" where
  "py_float i =
     (if converts_to_float i then
        Inr (if i < 0 then - real (round_half_even_53 (nat (- i))) else real (round_half_even_53 (nat i)))
      else Inl (OverflowError ''int too large to convert to float''))"

text \<open>
  \<^verbatim>\<open>float(a) / float(b)\<close> inside \<^verbatim>\<open>format\<close>: \<^verbatim>\<open>float(a)\<close> is evaluated first, then \<^verbatim>\<open>float(b)\<close>, and
  the division raises ZeroDivisionError when the divisor is zero. A divisor that is not zero
  is at least 1 in absolute value, so the quotient does not overflow. How Python prints the
  quotient is not modelled: the rendering is the parameter \<open>str_float_div\<close>, and every theorem
  below holds for any rendering.
\<close>

definition format_float_div :: "(int \<Rightarrow> int \<Rightarrow> string) \<Rightarrow> int \<Rightarrow> int \<Rightarrow> py_exception + string" where
  "format_float_div str_float_div a b =
     (case py_float a of
        Inl e \<Rightarrow> Inl e
      | Inr x \<Rightarrow>
          (case py_float b of
             Inl e \<Rightarrow> Inl e
           | Inr y \<Rightarrow>
               if y = 0 then Inl (ZeroDivisionError ''float division by zero'')
               else Inr (str_float_div a b)))"

text \<open>A rendering used where a closed example needs one: the quotient as written, \<open>a/b\<close>.\<close>

definition str_fraction :: "int \<Rightarrow> int \<Rightarrow> string" where
  "str_fraction a b = str_int a @ ''/'' @ str_int b"

text \<open>\<^verbatim>\<open>str.startswith\<close> and the substring test \<^verbatim>\<open>sub in s\<close>.\<close>

fun startswith :: "string \<Rightarrow> string \<Rightarrow> bool" where
  "startswith s [] = True"
| "startswith [] (p # ps) = False"
| "startswith (c # cs) (p # ps) = (c = p \<and> startswith cs ps)"

fun contains :: "string \<Rightarrow> string \<Rightarrow> bool" where
  "contains [] sub = (sub = [])"
| "contains (c # cs) sub = (startswith (c # cs) sub \<or> contains cs sub)"

section \<open>Regular expressions\<close>

text \<open>
  The two patterns of the sources, \<^verbatim>\<open>^pcluster_*\<close> and \<^verbatim>\<open>s3://(.*?)/(.*)\<close>, are built from
  four items: a literal character, \<^verbatim>\<open>c*\<close> for a character \<open>c\<close>, the lazy group \<^verbatim>\<open>(.*?)\<close> and
  the greedy group \<^verbatim>\<open>(.*)\<close>. \<open>re_match\<close> is \<^verbatim>\<open>re.match\<close> on such a pattern: it matches at the
  start of the string, backtracks as Python does, and returns the text of the groups; \<open>None\<close>
  is no match. The dot matches every character but the newline.
\<close>

datatype re_item = Lit char | StarChar char | GroupLazyAny | GroupGreedyAny

definition dot_matches :: "char \<Rightarrow> bool" where
  "dot_matches c = (c \<noteq> CHR 0x0A)"

fun re_match :: "re_item list \<Rightarrow> string \<Rightarrow> string list option" where
  "re_match [] s = Some []"
| "re_match (Lit c # ps) s =
     (case s of [] \<Rightarrow> None | x # xs \<Rightarrow> if x = c then re_match ps xs else None)"
| "re_match (StarChar c # ps) s =
     (case s of
        [] \<Rightarrow> re_match ps s
      | x # xs \<Rightarrow>
          if x = c then
            (case re_match (StarChar c # ps) xs of
               Some gs \<Rightarrow> Some gs
             | None \<Rightarrow> re_match ps s)
          else re_match ps s)"
| "re_match (GroupLazyAny # ps) s =
     (case re_match ps s of
        Some gs \<Rightarrow> Some ([] # gs)
      | None \<Rightarrow>
          (case s of
             [] \<Rightarrow> None
           | x # xs \<Rightarrow>
               if dot_matches x then
                 (case re_match (GroupLazyAny # ps) xs of
                    Some (g # gs) \<Rightarrow> Some ((x # g) # gs)
                  | _ \<Rightarrow> None)
               else None))"
| "re_match (GroupGreedyAny # ps) s =
     (case s of
        [] \<Rightarrow> map_option (Cons []) (re_match ps s)
      | x # xs \<Rightarrow>
          if dot_matches x then
            (case re_match (GroupGreedyAny # ps) xs of
               Some (g # gs) \<Rightarrow> Some ((x # g) # gs)
             | _ \<Rightarrow> map_option (Cons []) (re_match ps s))
          else map_option (Cons []) (re_match ps s))"

section \<open>EBS validators (\<^verbatim>\<open>pcluster/validators/ebs_validators.py\<close>)\<close>

text \<open>
  The three tables \<^verbatim>\<open>EBS_VOLUME_TYPE_TO_VOLUME_SIZE_BOUNDS\<close>, \<^verbatim>\<open>EBS_VOLUME_IOPS_BOUNDS\<close> and
  \<^verbatim>\<open>EBS_VOLUME_TYPE_TO_IOPS_RATIO\<close> are imported from \<^verbatim>\<open>pcluster.config.validators\<close>, which is
  not among the sources: they are parameters, dictionaries from the volume type to a pair of
  integer bounds or to an integer ratio. A Param is modelled by its value: \<open>volume_type\<close> a
  string, \<open>volume_size\<close> and \<open>volume_iops\<close> integers, and an optional value where the code
  tests one for truth (\<^verbatim>\<open>None\<close> and \<open>0\<close> are both false in Python).
\<close>

definition EbsVolumeTypeSizeValidator ::
  "(string \<rightharpoonup> int \<times> int) \<Rightarrow> string \<Rightarrow> int \<Rightarrow> outcome" where
  "EbsVolumeTypeSizeValidator EBS_VOLUME_TYPE_TO_VOLUME_SIZE_BOUNDS volume_type volume_size =
     (case EBS_VOLUME_TYPE_TO_VOLUME_SIZE_BOUNDS volume_type of
        None \<Rightarrow> Returned []
      | Some (min_size, max_size) \<Rightarrow>
          if volume_size > max_size then
            Returned (add_failure
              (''The size of '' @ volume_type @ '' volumes can not exceed '' @ str_int max_size @ '' GiB'')
              ERROR [''volume_size''] [])
          else if volume_size < min_size then
            Returned (add_failure
              (''The size of '' @ volume_type @ '' volumes must be at least '' @ str_int min_size @ '' GiB'')
              ERROR [''volume_size''] [])
          else Returned [])"

text \<open>
  In \<^verbatim>\<open>volume_throughput.value and volume_throughput.value > volume_iops.value * 0.25\<close> the
  product is evaluated only for a throughput that is not 0. It converts \<open>volume_iops\<close> to a
  double, which may raise OverflowError; the multiplication by 0.25 is then exact. Python
  compares the int on the left with the double on the right exactly, without converting the
  int, so the comparison is one of real numbers.
\<close>

definition EbsVolumeThroughputIopsValidator ::
  "(int \<Rightarrow> int \<Rightarrow> string) \<Rightarrow> string \<Rightarrow> int \<Rightarrow> int option \<Rightarrow> outcome" where
  "EbsVolumeThroughputIopsValidator str_float_div volume_type volume_iops volume_throughput =
     (let volume_throughput_to_iops_ratio = (0.25 :: real) in
      if volume_type = ''gp3'' then
        (case volume_throughput of
           None \<Rightarrow> Returned []
         | Some throughput \<Rightarrow>
             if throughput = 0 then Returned []
             else
               (case py_float volume_iops of
                  Inl e \<Rightarrow> Raised e []
                | Inr iops_float \<Rightarrow>
                    if real_of_int throughput > iops_float * volume_throughput_to_iops_ratio then
                      (case format_float_div str_float_div throughput volume_iops of
                         Inl e \<Rightarrow> Raised e []
                       | Inr ratio \<Rightarrow>
                           Returned (add_failure
                             (''Throughput to IOPS ratio of '' @ ratio @ '' is too high; maximum is 0.25.'')
                             ERROR [''volume_throughput''] []))
                    else Returned []))
      else Returned [])"

definition EbsVolumeIopsValidator ::
  "(string \<rightharpoonup> int \<times> int) \<Rightarrow> (string \<rightharpoonup> int) \<Rightarrow> (int \<Rightarrow> int \<Rightarrow> string) \<Rightarrow>
   string \<Rightarrow> int \<Rightarrow> int option \<Rightarrow> outcome" where
  "EbsVolumeIopsValidator EBS_VOLUME_IOPS_BOUNDS EBS_VOLUME_TYPE_TO_IOPS_RATIO str_float_div
       volume_type volume_size volume_iops =
     (case EBS_VOLUME_IOPS_BOUNDS volume_type of
        None \<Rightarrow> Returned []
      | Some (min_iops, max_iops) \<Rightarrow>
          (case volume_iops of
             None \<Rightarrow> Returned []
           | Some iops \<Rightarrow>
               if iops \<noteq> 0 \<and> (iops < min_iops \<or> iops > max_iops) then
                 Returned (add_failure
                   (''IOPS rate must be between '' @ str_int min_iops @ '' and '' @ str_int max_iops
                      @ '' when provisioning '' @ volume_type @ '' volumes.'')
                   ERROR [''volume_iops''] [])
               else if iops \<noteq> 0 then
                 (case EBS_VOLUME_TYPE_TO_IOPS_RATIO volume_type of
                    None \<Rightarrow> Raised (KeyError (quoted volume_type)) []
                  | Some ratio \<Rightarrow>
                      if iops > volume_size * ratio then
                        (case format_float_div str_float_div iops volume_size of
                           Inl e \<Rightarrow> Raised e []
                         | Inr r \<Rightarrow>
                             Returned (add_failure
                               (''IOPS to volume size ratio of '' @ r @ '' is too high; maximum is ''
                                  @ str_int ratio @ ''.'')
                               ERROR [''volume_iops''] []))
                      else Returned [])
               else Returned []))"

text \<open>
  The bounds that the docstring of \<^verbatim>\<open>EbsVolumeTypeSizeValidator\<close> states, for closed examples.
\<close>

definition docstring_size_bounds :: "string \<rightharpoonup> int \<times> int" where
  "docstring_size_bounds =
     map_of [(''standard'', (1, 1024)), (''gp2'', (1, 16384)), (''gp3'', (1, 16384)),
             (''io1'', (4, 16384)), (''io2'', (4, 16384)), (''st1'', (500, 16384)),
             (''sc1'', (500, 16384))]"

text \<open>
  The snapshot validator. The two messages of the size comparison are written as the source
  writes them: in the first only the first string literal is an f-string, so the text
  \<^verbatim>\<open>{snapshot_id}\<close> of the second literal stays as it is.
  \<^verbatim>\<open>get_ebs_snapshot_info\<close> and \<^verbatim>\<open>get_partition\<close> come from \<^verbatim>\<open>pcluster.utils\<close>, which is not
  among the sources: the lookup is a parameter that returns the snapshot's description or
  raises, the partition is a string. The description is read with \<^verbatim>\<open>.get("VolumeSize")\<close> and
  \<^verbatim>\<open>.get("State")\<close>, so either may be missing.
\<close>

record snapshot_info =
  VolumeSize :: "int option"
  State :: "string option"

definition smaller_than_snapshot_message :: "int \<Rightarrow> string" where
  "smaller_than_snapshot_message snapshot_volume_size =
     ''The EBS volume size must not be smaller than '' @ str_int snapshot_volume_size @ '', ''
       @ ''because it is the size of the provided snapshot {snapshot_id}''"

definition larger_than_snapshot_message :: "string \<Rightarrow> string" where
  "larger_than_snapshot_message get_partition =
     ''The specified volume size is larger than snapshot size. In order to use the full capacity ''
       @ ''of the volume, you'll need to manually resize the partition according to this doc: ''
       @ ''https://''
       @ (if get_partition = ''aws-cn'' then ''docs.amazonaws.cn'' else ''docs.aws.amazon.com'')
       @ ''/AWSEC2/latest/UserGuide/recognize-expanded-volume-linux.html''"

definition snapshot_size_check ::
  "string \<Rightarrow> string \<Rightarrow> snapshot_info \<Rightarrow> int \<Rightarrow> ValidationFailure list \<Rightarrow> ValidationFailure list" where
  "snapshot_size_check get_partition snapshot_id snapshot_response_dict volume_size fs =
     (case VolumeSize snapshot_response_dict of
        None \<Rightarrow>
          add_failure (''Unable to get volume size for snapshot '' @ snapshot_id) ERROR [''snapshot_id''] fs
      | Some snapshot_volume_size \<Rightarrow>
          if volume_size < snapshot_volume_size then
            add_failure (smaller_than_snapshot_message snapshot_volume_size) ERROR [''volume_size''] fs
          else if volume_size > snapshot_volume_size then
            add_failure (larger_than_snapshot_message get_partition) WARNING [''volume_size''] fs
          else fs)"

definition snapshot_state_check ::
  "string \<Rightarrow> snapshot_info \<Rightarrow> ValidationFailure list \<Rightarrow> ValidationFailure list" where
  "snapshot_state_check snapshot_id snapshot_response_dict fs =
     (if State snapshot_response_dict \<noteq> Some ''completed'' then
        add_failure
          (''Snapshot '' @ snapshot_id @ '' is in state '' @ quoted (str_opt (State snapshot_response_dict))
             @ '' not '' @ quoted ''completed'')
          WARNING [''snapshot_id''] fs
      else fs)"

text \<open>
  The \<^verbatim>\<open>except Exception\<close> clause. An exception outside \<^verbatim>\<open>Exception\<close> is not caught.
  \<open>fault_code_known\<close> is the test of the handler's \<^verbatim>\<open>if\<close>,
  \<^verbatim>\<open>isinstance(exception, ClientError) and exception.response.get("Error").get("Code") in [...]\<close>,
  and \<open>fault_message\<close> is the text that the handler formats into its message:
  \<^verbatim>\<open>exception.response.get("Error").get("Message")\<close> for a ClientError, \<^verbatim>\<open>str(exception)\<close> for
  any other exception. Both raise AttributeError for a ClientError whose response has no
  \<^verbatim>\<open>Error\<close> member, since \<^verbatim>\<open>.get\<close> is then called on \<^verbatim>\<open>None\<close>.
\<close>

definition none_has_no_get :: py_exception where
  "none_has_no_get = AttributeError (quoted ''NoneType'' @ '' object has no attribute '' @ quoted ''get'')"

fun fault_code_known :: "py_exception \<Rightarrow> py_exception + bool" where
  "fault_code_known (ClientError None) = Inl none_has_no_get"
| "fault_code_known (ClientError (Some err)) =
     Inr (Code err \<in> set [Some ''InvalidSnapshot.NotFound'', Some ''InvalidSnapshot.Malformed''])"
| "fault_code_known e = Inr False"

fun fault_message :: "py_exception \<Rightarrow> py_exception + string" where
  "fault_message (ClientError None) = Inl none_has_no_get"
| "fault_message (ClientError (Some err)) = Inr (str_opt (Message err))"
| "fault_message (HTTPError code reason) = Inr (''HTTP Error '' @ str_int code @ '': '' @ reason)"
| "fault_message (URLError reason) = Inr (''<urlopen error '' @ reason @ ''>'')"
| "fault_message (ValueError s) = Inr s"
| "fault_message (AttributeError s) = Inr s"
| "fault_message (ZeroDivisionError s) = Inr s"
| "fault_message (KeyError s) = Inr s"
| "fault_message (IndexError s) = Inr s"
| "fault_message (OverflowError s) = Inr s"
| "fault_message (OtherException s) = Inr s"
| "fault_message (NonException s) = Inr s"

definition snapshot_lookup_failed :: "string \<Rightarrow> py_exception \<Rightarrow> outcome" where
  "snapshot_lookup_failed snapshot_id exception =
     (if \<not> is_Exception exception then Raised exception []
      else
        (case fault_code_known exception of
           Inl e \<Rightarrow> Raised e []
         | Inr known \<Rightarrow>
             if known then
               (case fault_message exception of
                  Inl e \<Rightarrow> Raised e []
                | Inr msg \<Rightarrow>
                    Returned (add_failure
                      (''The snapshot '' @ snapshot_id @ '' does not appear to exist: '' @ msg)
                      ERROR [''snapshot_id''] []))
             else
               (case fault_message exception of
                  Inl e \<Rightarrow> Raised e []
                | Inr msg \<Rightarrow>
                    Returned (add_failure
                      (''Issue getting info for snapshot '' @ snapshot_id @ '': '' @ msg)
                      ERROR [''snapshot_id''] []))))"

definition EbsVolumeSizeSnapshotValidator ::
  "(string \<Rightarrow> py_exception + snapshot_info) \<Rightarrow> string \<Rightarrow> string option \<Rightarrow> int \<Rightarrow> outcome" where
  "EbsVolumeSizeSnapshotValidator get_ebs_snapshot_info get_partition snapshot_id volume_size =
     (case snapshot_id of
        None \<Rightarrow> Returned []
      | Some sid \<Rightarrow>
          if sid = [] then Returned []
          else
            (case get_ebs_snapshot_info sid of
               Inr snapshot_response_dict \<Rightarrow>
                 Returned
                   (snapshot_state_check sid snapshot_response_dict
                      (snapshot_size_check get_partition sid snapshot_response_dict volume_size []))
             | Inl exception \<Rightarrow> snapshot_lookup_failed sid exception))"

text \<open>Two lookups for closed examples: one returns a description, one raises.\<close>

definition lookup_returns :: "snapshot_info \<Rightarrow> string \<Rightarrow> py_exception + snapshot_info" where
  "lookup_returns info sid = Inr info"

definition lookup_raises :: "py_exception \<Rightarrow> string \<Rightarrow> py_exception + snapshot_info" where
  "lookup_raises e sid = Inl e"

section \<open>URL validator (\<^verbatim>\<open>pcluster/validators/s3_validators.py\<close>)\<close>

text \<open>
  The collaborators are parameters. \<open>urlparse_scheme url\<close> is \<^verbatim>\<open>urlparse(url).scheme\<close> of the
  standard library; \<open>urlopen url\<close> and \<open>head_object bucket_name object_name\<close> are \<open>None\<close> when
  the call returns and \<open>Some e\<close> when it raises \<open>e\<close>.
\<close>

definition s3_uri_pattern :: "re_item list" where
  "s3_uri_pattern = map Lit ''s3://'' @ [GroupLazyAny, Lit (CHR ''/''), GroupGreedyAny]"

text \<open>
  \<^verbatim>\<open>_validate_s3_uri\<close>. After the failure for a url that does not match, the code goes on to
  \<^verbatim>\<open>match.group(1)\<close>: on \<^verbatim>\<open>None\<close> that raises AttributeError, which the clause
  \<^verbatim>\<open>except ClientError\<close> does not catch.
\<close>

definition validate_s3_uri ::
  "(string \<Rightarrow> string \<Rightarrow> py_exception option) \<Rightarrow> string \<Rightarrow> ValidationFailure list \<Rightarrow> outcome" where
  "validate_s3_uri head_object s3_url fs =
     (let match = re_match s3_uri_pattern s3_url;
          fs1 = (if (case match of None \<Rightarrow> True | Some groups \<Rightarrow> length groups < 2)
                 then add_failure (''s3 url '' @ quoted s3_url @ '' is invalid.'') ERROR [] fs
                 else fs)
      in case match of
           None \<Rightarrow>
             Raised (AttributeError (quoted ''NoneType'' @ '' object has no attribute '' @ quoted ''group'')) fs1
         | Some groups \<Rightarrow>
             (case groups of
                bucket_name # object_name # _ \<Rightarrow>
                  (case head_object bucket_name object_name of
                     None \<Rightarrow> Returned fs1
                   | Some e \<Rightarrow>
                       if is_ClientError e then
                         Returned (add_failure
                           (''The S3 object does not exist or you do not have access to it.'' @ [CHR 0x0A]
                              @ ''Please make sure the cluster nodes have access to it.'')
                           ERROR [] fs1)
                       else Raised e fs1)
              | _ \<Rightarrow> Raised (IndexError ''no such group'') fs1))"

definition validate_https_url ::
  "(string \<Rightarrow> py_exception option) \<Rightarrow> string \<Rightarrow> ValidationFailure list \<Rightarrow> outcome" where
  "validate_https_url urlopen url fs =
     (case urlopen url of
        None \<Rightarrow> Returned fs
      | Some (HTTPError code reason) \<Rightarrow>
          Returned (add_failure
            (''The url '' @ quoted url @ '' cause HTTPError, the error code is '' @ quoted (str_int code)
               @ '', the error reason is '' @ quoted reason)
            WARNING [] fs)
      | Some (URLError reason) \<Rightarrow>
          Returned (add_failure
            (''The url '' @ quoted url @ '' causes URLError, the error reason is '' @ quoted reason)
            WARNING [] fs)
      | Some (ValueError s) \<Rightarrow>
          Returned (add_failure (''The value '' @ quoted url @ '' is not a valid URL'') ERROR [''url''] fs)
      | Some e \<Rightarrow> Raised e fs)"

definition UrlValidator ::
  "(string \<Rightarrow> string) \<Rightarrow> (string \<Rightarrow> py_exception option) \<Rightarrow>
   (string \<Rightarrow> string \<Rightarrow> py_exception option) \<Rightarrow> string \<Rightarrow> outcome" where
  "UrlValidator urlparse_scheme urlopen head_object url =
     (let scheme = urlparse_scheme url in
      if scheme \<in> set [''https'', ''s3'', ''file''] then
        (case (if scheme = ''s3'' then validate_s3_uri head_object url [] else Returned []) of
           Raised e fs \<Rightarrow> Raised e fs
         | Returned fs \<Rightarrow>
             if scheme = ''https'' then validate_https_url urlopen url fs else Returned fs)
      else
        Returned (add_failure
          (''The value '' @ quoted url @ '' is not a valid URL, choose URL with '' @ quoted ''https''
             @ '', '' @ quoted ''s3'' @ '' or '' @ quoted ''file'' @ '' prefix.'')
          ERROR [''url''] []))"

text \<open>Collaborators for closed examples: the scheme is the text before the first colon (what
  \<^verbatim>\<open>urlparse\<close> gives for a lower-case scheme of letters), and calls that return.\<close>

definition scheme_before_colon :: "string \<Rightarrow> string" where
  "scheme_before_colon url =
     (if CHR '':'' \<in> set url then takeWhile (\<lambda>c. c \<noteq> CHR '':'') url else [])"

definition urlopen_ok :: "string \<Rightarrow> py_exception option" where
  "urlopen_ok url = None"

definition head_object_ok :: "string \<Rightarrow> string \<Rightarrow> py_exception option" where
  "head_object_ok bucket_name object_name = None"

section \<open>CloudFormation client (\<^verbatim>\<open>pcluster/aws/cfn.py\<close>)\<close>

text \<open>
  A stack description as \<^verbatim>\<open>describe_stacks\<close> returns it: \<^verbatim>\<open>ParentId\<close> is present for a nested
  stack only, \<^verbatim>\<open>StackName\<close> is a required member, and the other members are carried along in
  the record's extension. \<^verbatim>\<open>PCLUSTER_STACK_PREFIX\<close> comes from \<^verbatim>\<open>pcluster.constants\<close>, which is
  not among the sources: it is a parameter. The comprehension of \<^verbatim>\<open>list_pcluster_stacks\<close> runs
  over the stacks the paginator yields and appends those that pass the test.
\<close>

record stack =
  ParentId :: "string option"
  StackName :: string

fun collect_pcluster_stacks ::
  "string \<Rightarrow> 'a stack_scheme list \<Rightarrow> 'a stack_scheme list \<Rightarrow> 'a stack_scheme list" where
  "collect_pcluster_stacks PCLUSTER_STACK_PREFIX acc [] = acc"
| "collect_pcluster_stacks PCLUSTER_STACK_PREFIX acc (stack # rest) =
     collect_pcluster_stacks PCLUSTER_STACK_PREFIX
       (if ParentId stack = None \<and> startswith (StackName stack) PCLUSTER_STACK_PREFIX
        then acc @ [stack] else acc)
       rest"

definition list_pcluster_stacks :: "string \<Rightarrow> 'a stack_scheme list \<Rightarrow> 'a stack_scheme list" where
  "list_pcluster_stacks PCLUSTER_STACK_PREFIX paginate_results =
     collect_pcluster_stacks PCLUSTER_STACK_PREFIX [] paginate_results"

section \<open>Image schema (\<^verbatim>\<open>pcluster/schemas/imagebuilder_schema.py\<close>)\<close>

text \<open>
  \<^verbatim>\<open>validate_reserved_tag\<close> receives the loaded \<^verbatim>\<open>tags\<close> field, a list of tags or \<^verbatim>\<open>None\<close>, and
  raises marshmallow's ValidationError at the first tag whose key the pattern matches. The
  result is \<open>Inl\<close> of the error's message, or \<open>Inr ()\<close> when the hook returns.
\<close>

record tag =
  key :: string
  val :: string

definition reserved_tag_pattern :: "re_item list" where
  "reserved_tag_pattern = map Lit ''pcluster'' @ [StarChar (CHR ''_'')]"

definition reserved_tag_message :: string where
  "reserved_tag_message =
     ''The tag key prefix '' @ quoted ''pcluster_'' @ '' is reserved and cannot be used.''"

fun validate_each_tag :: "tag list \<Rightarrow> string + unit" where
  "validate_each_tag [] = Inr ()"
| "validate_each_tag (t # ts) =
     (case re_match reserved_tag_pattern (key t) of
        Some m \<Rightarrow> Inl reserved_tag_message
      | None \<Rightarrow> validate_each_tag ts)"

definition validate_reserved_tag :: "tag list option \<Rightarrow> string + unit" where
  "validate_reserved_tag v =
     (case v of
        None \<Rightarrow> Inr ()
      | Some tags \<Rightarrow> if tags = [] then Inr () else validate_each_tag tags)"

section \<open>Properties of the snapshot validator\<close>

lemmas str_int_eval = str_int_def str_nat.simps digit_char_def

text \<open>
  Claim C1 says that a lookup fault the validator cannot classify leaves the validator
  unhandled. The handler is \<^verbatim>\<open>except Exception\<close> with an \<^verbatim>\<open>else\<close> branch for everything that is not
  a recognised ClientError, so such a fault is recorded as a failure. Claim C1, as the code has
  it: when \<open>snapshot_id\<close> is set and the lookup raises an Exception that is either no
  ClientError at all, or a ClientError whose response has an \<^verbatim>\<open>Error\<close> member with a code other
  than the two recognised ones, the validator returns with the single ERROR failure "Issue
  getting info for snapshot ..." on \<open>snapshot_id\<close>; a fault outside \<^verbatim>\<open>Exception\<close> leaves the
  validator as it was raised. Nothing is said about a ClientError whose response has no
  \<^verbatim>\<open>Error\<close> member.
\<close>

theorem snapshot_lookup_unclassified_fault_is_failure:
  assumes "sid \<noteq> []"
    and "get_ebs_snapshot_info sid = Inl exception"
  shows "(is_Exception exception \<and>
          (\<not> is_ClientError exception \<or>
           (\<exists>err. exception = ClientError (Some err)
              \<and> Code err \<notin> set [Some ''InvalidSnapshot.NotFound'', Some ''InvalidSnapshot.Malformed''])) \<longrightarrow>
          (\<exists>msg. fault_message exception = Inr msg \<and>
             EbsVolumeSizeSnapshotValidator get_ebs_snapshot_info get_partition (Some sid) volume_size
               = Returned [\<lparr>message = ''Issue getting info for snapshot '' @ sid @ '': '' @ msg,
                            level = ERROR, failed_params = [''snapshot_id'']\<rparr>])) \<and>
         (\<not> is_Exception exception \<longrightarrow>
          EbsVolumeSizeSnapshotValidator get_ebs_snapshot_info get_partition (Some sid) volume_size
            = Raised exception [])"
  using assms
  by (cases exception)
     (auto simp add: EbsVolumeSizeSnapshotValidator_def snapshot_lookup_failed_def add_failure_def)

text \<open>The theorem at a connection fault, at a ClientError with another code, and at a
  KeyboardInterrupt.\<close>

theorem snapshot_lookup_unclassified_fault_is_failure_witness:
  "EbsVolumeSizeSnapshotValidator (lookup_raises (OtherException ''Connection reset by peer'')) ''aws''
       (Some ''snap-1'') 20
     = Returned [\<lparr>message = ''Issue getting info for snapshot snap-1: Connection reset by peer'',
                  level = ERROR, failed_params = [''snapshot_id'']\<rparr>] \<and>
   EbsVolumeSizeSnapshotValidator
       (lookup_raises (ClientError (Some \<lparr>Code = Some ''RequestLimitExceeded'',
                                          Message = Some ''Request limit exceeded.''\<rparr>))) ''aws''
       (Some ''snap-1'') 20
     = Returned [\<lparr>message = ''Issue getting info for snapshot snap-1: Request limit exceeded.'',
                  level = ERROR, failed_params = [''snapshot_id'']\<rparr>] \<and>
   EbsVolumeSizeSnapshotValidator (lookup_raises (NonException ''KeyboardInterrupt'')) ''aws''
       (Some ''snap-1'') 20
     = Raised (NonException ''KeyboardInterrupt'') []"
proof -
  let ?oe = "OtherException ''Connection reset by peer''"
  let ?ce = "ClientError (Some \<lparr>Code = Some ''RequestLimitExceeded'',
                                 Message = Some ''Request limit exceeded.''\<rparr>)"
  let ?ne = "NonException ''KeyboardInterrupt''"
  have sid: "''snap-1'' \<noteq> []" by simp
  have l1: "lookup_raises ?oe ''snap-1'' = Inl ?oe"
    and l2: "lookup_raises ?ce ''snap-1'' = Inl ?ce"
    and l3: "lookup_raises ?ne ''snap-1'' = Inl ?ne"
    by (simp_all add: lookup_raises_def)
  from snapshot_lookup_unclassified_fault_is_failure
         [where get_ebs_snapshot_info = "lookup_raises ?oe"
            and get_partition = "''aws''" and volume_size = 20, OF sid l1]
       snapshot_lookup_unclassified_fault_is_failure
         [where get_ebs_snapshot_info = "lookup_raises ?ce"
            and get_partition = "''aws''" and volume_size = 20, OF sid l2]
       snapshot_lookup_unclassified_fault_is_failure
         [where get_ebs_snapshot_info = "lookup_raises ?ne"
            and get_partition = "''aws''" and volume_size = 20, OF sid l3]
  show ?thesis by (simp add: str_opt_def)
qed

text \<open>Against claim C1 as stated: the lookup raises an exception that is no ClientError at
  all, and the validator returns with an ERROR failure instead of letting it through.\<close>

theorem snapshot_lookup_fault_propagates_counterexample:
  "EbsVolumeSizeSnapshotValidator (lookup_raises (OtherException ''collaborator crashed'')) ''aws''
       (Some ''snap-1'') 20
     = Returned [\<lparr>message = ''Issue getting info for snapshot snap-1: collaborator crashed'',
                  level = ERROR, failed_params = [''snapshot_id'']\<rparr>]"
  by (simp add: EbsVolumeSizeSnapshotValidator_def snapshot_lookup_failed_def add_failure_def
      lookup_raises_def)

text \<open>A ClientError whose response has no \<^verbatim>\<open>Error\<close> member: the handler's own test raises
  AttributeError, which leaves the validator.\<close>

lemma snapshot_lookup_ClientError_without_Error:
  assumes "sid \<noteq> []"
    and "get_ebs_snapshot_info sid = Inl (ClientError None)"
  shows "EbsVolumeSizeSnapshotValidator get_ebs_snapshot_info get_partition (Some sid) volume_size
           = Raised none_has_no_get []"
  using assms
  by (simp add: EbsVolumeSizeSnapshotValidator_def snapshot_lookup_failed_def)

text \<open>
  Claim C2. When \<open>snapshot_id\<close> is set and the lookup returns a description with a recorded
  size and a state, the validator returns; a volume size below the recorded size gives an ERROR
  failure, one above it a WARNING failure, an equal one no failure on \<open>volume_size\<close>; and
  whatever the sizes are, a state other than "completed" adds one WARNING failure, on
  \<open>snapshot_id\<close>, after them.
\<close>

theorem snapshot_size_and_state_failures:
  assumes "sid \<noteq> []"
    and "get_ebs_snapshot_info sid = Inr info"
    and "VolumeSize info = Some snapshot_volume_size"
    and "State info = Some st"
  shows "\<exists>fs. EbsVolumeSizeSnapshotValidator get_ebs_snapshot_info get_partition (Some sid) volume_size
              = Returned fs
           \<and> map level fs =
               (if volume_size < snapshot_volume_size then [ERROR]
                else if volume_size > snapshot_volume_size then [WARNING] else [])
               @ (if st \<noteq> ''completed'' then [WARNING] else [])
           \<and> map failed_params fs =
               (if volume_size \<noteq> snapshot_volume_size then [[''volume_size'']] else [])
               @ (if st \<noteq> ''completed'' then [[''snapshot_id'']] else [])"
  using assms
  by (simp add: EbsVolumeSizeSnapshotValidator_def snapshot_size_check_def snapshot_state_check_def
      add_failure_def)

text \<open>The spec's example: a snapshot of size 50 against volume sizes 40, 60 and 50, pending
  and completed.\<close>

theorem snapshot_size_and_state_failures_witness:
  "(\<exists>fs. EbsVolumeSizeSnapshotValidator
            (lookup_returns \<lparr>VolumeSize = Some 50, State = Some ''pending''\<rparr>) ''aws'' (Some ''snap-1'') 40
            = Returned fs
         \<and> map level fs = [ERROR, WARNING]
         \<and> map failed_params fs = [[''volume_size''], [''snapshot_id'']]) \<and>
   (\<exists>fs. EbsVolumeSizeSnapshotValidator
            (lookup_returns \<lparr>VolumeSize = Some 50, State = Some ''pending''\<rparr>) ''aws'' (Some ''snap-1'') 60
            = Returned fs
         \<and> map level fs = [WARNING, WARNING]
         \<and> map failed_params fs = [[''volume_size''], [''snapshot_id'']]) \<and>
   (\<exists>fs. EbsVolumeSizeSnapshotValidator
            (lookup_returns \<lparr>VolumeSize = Some 50, State = Some ''completed''\<rparr>) ''aws'' (Some ''snap-1'') 50
            = Returned fs
         \<and> map level fs = []
         \<and> map failed_params fs = [])"
proof -
  have sid: "''snap-1'' \<noteq> []" by simp
  have l1: "lookup_returns \<lparr>VolumeSize = Some 50, State = Some ''pending''\<rparr> ''snap-1''
              = Inr \<lparr>VolumeSize = Some 50, State = Some ''pending''\<rparr>"
    and l2: "lookup_returns \<lparr>VolumeSize = Some 50, State = Some ''completed''\<rparr> ''snap-1''
              = Inr \<lparr>VolumeSize = Some 50, State = Some ''completed''\<rparr>"
    by (simp_all add: lookup_returns_def)
  have v1: "VolumeSize \<lparr>VolumeSize = Some 50, State = Some ''pending''\<rparr> = Some 50"
    and v2: "VolumeSize \<lparr>VolumeSize = Some 50, State = Some ''completed''\<rparr> = Some 50"
    and s1: "State \<lparr>VolumeSize = Some 50, State = Some ''pending''\<rparr> = Some ''pending''"
    and s2: "State \<lparr>VolumeSize = Some 50, State = Some ''completed''\<rparr> = Some ''completed''"
    by simp_all
  note t1 = snapshot_size_and_state_failures
    [where get_ebs_snapshot_info = "lookup_returns \<lparr>VolumeSize = Some 50, State = Some ''pending''\<rparr>"
       and get_partition = "''aws''", OF sid l1 v1 s1]
  note t2 = snapshot_size_and_state_failures
    [where get_ebs_snapshot_info = "lookup_returns \<lparr>VolumeSize = Some 50, State = Some ''completed''\<rparr>"
       and get_partition = "''aws''", OF sid l2 v2 s2]
  from t1 [of 40] t1 [of 60] t2 [of 50]
  show ?thesis by simp
qed

text \<open>
  Claim C7. In one code path of the snapshot validator, the size comparison of the branch
  \<open>volume_size < snapshot size\<close> (the source's comment calls the comparison the check that the
  volume size is larger than the snapshot's), the failure message keeps \<^verbatim>\<open>{snapshot_id}\<close> as
  literal, unformatted text instead of the snapshot's identifier: whatever the identifier is,
  the ERROR message ends with that text. The WARNING message of the branch
  \<open>volume_size > snapshot size\<close>, which is formatted with the partition's url, does not contain
  the placeholder.
\<close>

theorem smaller_than_snapshot_message_keeps_placeholder:
  assumes "sid \<noteq> []"
    and "get_ebs_snapshot_info sid = Inr info"
    and "VolumeSize info = Some snapshot_volume_size"
  shows "(volume_size < snapshot_volume_size \<longrightarrow>
          (\<exists>rest. EbsVolumeSizeSnapshotValidator get_ebs_snapshot_info get_partition (Some sid) volume_size
             = Returned (\<lparr>message = ''The EBS volume size must not be smaller than ''
                                      @ str_int snapshot_volume_size
                                      @ '', because it is the size of the provided snapshot {snapshot_id}'',
                          level = ERROR, failed_params = [''volume_size'']\<rparr> # rest))) \<and>
         (volume_size > snapshot_volume_size \<longrightarrow>
          (\<exists>rest. EbsVolumeSizeSnapshotValidator get_ebs_snapshot_info get_partition (Some sid) volume_size
             = Returned (\<lparr>message = larger_than_snapshot_message get_partition,
                          level = WARNING, failed_params = [''volume_size'']\<rparr> # rest))
          \<and> \<not> contains (larger_than_snapshot_message get_partition) ''{snapshot_id}'')"
proof -
  have "\<not> contains (larger_than_snapshot_message get_partition) ''{snapshot_id}''"
    by (simp add: larger_than_snapshot_message_def)
  with assms show ?thesis
    by (simp add: EbsVolumeSizeSnapshotValidator_def snapshot_size_check_def snapshot_state_check_def
        add_failure_def smaller_than_snapshot_message_def)
qed

text \<open>The theorem at a snapshot of size 50 with a real-looking identifier, against volume
  sizes 40 and 60.\<close>

theorem smaller_than_snapshot_message_keeps_placeholder_witness:
  "(\<exists>rest. EbsVolumeSizeSnapshotValidator
             (lookup_returns \<lparr>VolumeSize = Some 50, State = Some ''completed''\<rparr>) ''aws''
             (Some ''snap-0123456789abcdef0'') 40
           = Returned (\<lparr>message = ''The EBS volume size must not be smaller than 50, because it is the size of the provided snapshot {snapshot_id}'',
                        level = ERROR, failed_params = [''volume_size'']\<rparr> # rest)) \<and>
   (\<exists>rest. EbsVolumeSizeSnapshotValidator
             (lookup_returns \<lparr>VolumeSize = Some 50, State = Some ''completed''\<rparr>) ''aws''
             (Some ''snap-0123456789abcdef0'') 60
           = Returned (\<lparr>message = larger_than_snapshot_message ''aws'',
                        level = WARNING, failed_params = [''volume_size'']\<rparr> # rest))"
proof -
  have sid: "''snap-0123456789abcdef0'' \<noteq> []" by simp
  have l: "lookup_returns \<lparr>VolumeSize = Some 50, State = Some ''completed''\<rparr> ''snap-0123456789abcdef0''
             = Inr \<lparr>VolumeSize = Some 50, State = Some ''completed''\<rparr>"
    by (simp add: lookup_returns_def)
  have v: "VolumeSize \<lparr>VolumeSize = Some 50, State = Some ''completed''\<rparr> = Some 50" by simp
  have s50: "str_int 50 = ''50''" by (simp add: str_int_eval)
  note t = smaller_than_snapshot_message_keeps_placeholder
    [where get_ebs_snapshot_info = "lookup_returns \<lparr>VolumeSize = Some 50, State = Some ''completed''\<rparr>"
       and get_partition = "''aws''", OF sid l v]
  from t [of 40] t [of 60] s50
  show ?thesis by simp
qed

section \<open>Properties of the size, throughput and IOPS validators\<close>

text \<open>
  Claim C4. For a volume type with size bounds \<open>(min, max)\<close> and any integer size, the
  validator returns: no failure when \<open>min \<le> size \<le> max\<close>, the bounds themselves included;
  exactly one ERROR failure when \<open>size > max\<close>; exactly one ERROR failure when \<open>size < min\<close>;
  never more than one failure; and no failure for a type that the table does not hold.
\<close>

theorem EbsVolumeTypeSizeValidator_bounds:
  "(EBS_VOLUME_TYPE_TO_VOLUME_SIZE_BOUNDS volume_type = Some (min_size, max_size) \<longrightarrow>
      (min_size \<le> volume_size \<and> volume_size \<le> max_size \<longrightarrow>
         EbsVolumeTypeSizeValidator EBS_VOLUME_TYPE_TO_VOLUME_SIZE_BOUNDS volume_type volume_size
           = Returned []) \<and>
      (volume_size > max_size \<longrightarrow>
         EbsVolumeTypeSizeValidator EBS_VOLUME_TYPE_TO_VOLUME_SIZE_BOUNDS volume_type volume_size
           = Returned [\<lparr>message = ''The size of '' @ volume_type @ '' volumes can not exceed ''
                                    @ str_int max_size @ '' GiB'',
                        level = ERROR, failed_params = [''volume_size'']\<rparr>]) \<and>
      (volume_size < min_size \<longrightarrow>
         (\<exists>msg. EbsVolumeTypeSizeValidator EBS_VOLUME_TYPE_TO_VOLUME_SIZE_BOUNDS volume_type volume_size
            = Returned [\<lparr>message = msg, level = ERROR, failed_params = [''volume_size'']\<rparr>])) \<and>
      (volume_size < min_size \<and> volume_size \<le> max_size \<longrightarrow>
         EbsVolumeTypeSizeValidator EBS_VOLUME_TYPE_TO_VOLUME_SIZE_BOUNDS volume_type volume_size
           = Returned [\<lparr>message = ''The size of '' @ volume_type @ '' volumes must be at least ''
                                    @ str_int min_size @ '' GiB'',
                        level = ERROR, failed_params = [''volume_size'']\<rparr>]) \<and>
      (\<exists>fs. EbsVolumeTypeSizeValidator EBS_VOLUME_TYPE_TO_VOLUME_SIZE_BOUNDS volume_type volume_size
              = Returned fs
            \<and> length fs \<le> 1)) \<and>
   (EBS_VOLUME_TYPE_TO_VOLUME_SIZE_BOUNDS volume_type = None \<longrightarrow>
      EbsVolumeTypeSizeValidator EBS_VOLUME_TYPE_TO_VOLUME_SIZE_BOUNDS volume_type volume_size
        = Returned [])"
  by (simp add: EbsVolumeTypeSizeValidator_def add_failure_def)

text \<open>The theorem on the docstring's bounds for io1, 4 to 16384 GiB: at min, at max, at
  max + 1, at min - 1, and for a type without bounds.\<close>

theorem EbsVolumeTypeSizeValidator_bounds_witness:
  "EbsVolumeTypeSizeValidator docstring_size_bounds ''io1'' 4 = Returned [] \<and>
   EbsVolumeTypeSizeValidator docstring_size_bounds ''io1'' 16384 = Returned [] \<and>
   EbsVolumeTypeSizeValidator docstring_size_bounds ''io1'' 16385 =
     Returned [\<lparr>message = ''The size of io1 volumes can not exceed 16384 GiB'',
                level = ERROR, failed_params = [''volume_size'']\<rparr>] \<and>
   EbsVolumeTypeSizeValidator docstring_size_bounds ''io1'' 3 =
     Returned [\<lparr>message = ''The size of io1 volumes must be at least 4 GiB'',
                level = ERROR, failed_params = [''volume_size'']\<rparr>] \<and>
   EbsVolumeTypeSizeValidator docstring_size_bounds ''nvme'' 3 = Returned []"
proof -
  have io1: "docstring_size_bounds ''io1'' = Some (4, 16384)"
    by (simp add: docstring_size_bounds_def)
  have nvme: "docstring_size_bounds ''nvme'' = None"
    by (simp add: docstring_size_bounds_def)
  have s4: "str_int 4 = ''4''" and s16384: "str_int 16384 = ''16384''"
    by (simp_all add: str_int_eval)
  note t = EbsVolumeTypeSizeValidator_bounds [of docstring_size_bounds]
  from t [of "''io1''" 4 16384 4] io1
  have a: "EbsVolumeTypeSizeValidator docstring_size_bounds ''io1'' 4 = Returned []" by simp
  from t [of "''io1''" 4 16384 16384] io1
  have b: "EbsVolumeTypeSizeValidator docstring_size_bounds ''io1'' 16384 = Returned []" by simp
  from t [of "''io1''" 4 16384 16385] io1 s16384
  have c: "EbsVolumeTypeSizeValidator docstring_size_bounds ''io1'' 16385 =
     Returned [\<lparr>message = ''The size of io1 volumes can not exceed 16384 GiB'',
                level = ERROR, failed_params = [''volume_size'']\<rparr>]" by simp
  from t [of "''io1''" 4 16384 3] io1 s4
  have d: "EbsVolumeTypeSizeValidator docstring_size_bounds ''io1'' 3 =
     Returned [\<lparr>message = ''The size of io1 volumes must be at least 4 GiB'',
                level = ERROR, failed_params = [''volume_size'']\<rparr>]" by simp
  from t [of "''nvme''" 0 0 3] nvme
  have e: "EbsVolumeTypeSizeValidator docstring_size_bounds ''nvme'' 3 = Returned []" by simp
  from a b c d e show ?thesis by simp
qed

text \<open>Conversion of an int to a double: the range, the exact part and the sign.\<close>

lemma float_limit_gt: "(2::int) ^ 53 < float_limit"
  by (simp add: float_limit_def)

lemma float_limit_le: "float_limit \<le> 2 ^ 1024"
  by (simp add: float_limit_def)

lemma py_float_overflow:
  "float_limit \<le> \<bar>i\<bar> \<Longrightarrow> py_float i = Inl (OverflowError ''int too large to convert to float'')"
  by (simp add: py_float_def converts_to_float_def)

lemma py_float_exact: "\<bar>i\<bar> < 2 ^ 53 \<Longrightarrow> py_float i = Inr (real_of_int i)"
proof -
  assume a: "\<bar>i\<bar> < 2 ^ 53"
  with float_limit_gt have c: "converts_to_float i"
    by (simp add: converts_to_float_def)
  from a have "nat \<bar>i\<bar> < 2 ^ 53"
    by (simp add: nat_less_iff)
  then have n: "nat (- i) < 2 ^ 53" "nat i < 2 ^ 53"
    by (simp_all add: nat_less_iff)
  with c show ?thesis
    by (simp add: py_float_def round_half_even_53_def)
qed

lemma round_half_even_53_pos: "0 < n \<Longrightarrow> 0 < round_half_even_53 n"
proof (cases "n < 2 ^ 53")
  case True
  assume "0 < n"
  with True show ?thesis by (simp add: round_half_even_53_def)
next
  case False
  assume pos: "0 < n"
  define e where "e = floorlog 2 n - 53"
  from floorlog_bounds [of n 2] pos have upper: "2 ^ (floorlog 2 n - 1) \<le> n" by simp
  have lower: "(2::nat) ^ e \<le> 2 ^ (floorlog 2 n - 1)"
    unfolding e_def by (rule power_increasing) simp_all
  from lower upper have "2 ^ e \<le> n" by (rule order_trans)
  then have q: "0 < n div 2 ^ e"
    by (simp add: div_greater_zero_iff)
  from False q show ?thesis
    by (simp add: round_half_even_53_def Let_def e_def [symmetric])
qed

lemma py_float_value:
  assumes "converts_to_float i"
  shows "\<exists>x. py_float i = Inr x \<and> (x = 0 \<longleftrightarrow> i = 0) \<and> (0 < x \<longleftrightarrow> 0 < i)"
proof -
  consider "i < 0" | "i = 0" | "0 < i" by linarith
  then show ?thesis
  proof cases
    case 1
    then have "0 < round_half_even_53 (nat (- i))"
      by (intro round_half_even_53_pos) simp
    with 1 assms show ?thesis by (simp add: py_float_def)
  next
    case 2
    with assms show ?thesis by (simp add: py_float_def round_half_even_53_def)
  next
    case 3
    then have "0 < round_half_even_53 (nat i)"
      by (intro round_half_even_53_pos) simp
    with 3 assms show ?thesis by (simp add: py_float_def)
  qed
qed

lemma format_float_div_cases:
  "format_float_div str_float_div a b =
     (if \<not> converts_to_float a \<or> \<not> converts_to_float b
      then Inl (OverflowError ''int too large to convert to float'')
      else if b = 0 then Inl (ZeroDivisionError ''float division by zero'')
      else Inr (str_float_div a b))"
proof (cases "converts_to_float a \<and> converts_to_float b")
  case True
  then obtain x y where "py_float a = Inr x" and "py_float b = Inr y" and "y = 0 \<longleftrightarrow> b = 0"
    using py_float_value by blast
  with True show ?thesis by (simp add: format_float_div_def)
next
  case False
  show ?thesis
  proof (cases "converts_to_float a")
    case True
    with False have nb: "\<not> converts_to_float b" by simp
    from True obtain x where "py_float a = Inr x" using py_float_value by blast
    with nb show ?thesis by (simp add: format_float_div_def py_float_def)
  next
    case False
    then show ?thesis by (simp add: format_float_div_def py_float_def)
  qed
qed

lemma converts_small: "\<bar>i\<bar> < 2 ^ 53 \<Longrightarrow> converts_to_float i"
  using float_limit_gt by (simp add: converts_to_float_def)

text \<open>
  The throughput-to-IOPS validator for \<open>volume_iops\<close> other than 0 and below \<open>2^53\<close> in absolute
  value, and a throughput that converts to a float: one ERROR failure that cites the ratio
  exactly when the type is gp3, the throughput is set (and not 0) and above a quarter of the
  IOPS; no failure otherwise.
\<close>

lemma EbsVolumeThroughputIopsValidator_nonzero_iops:
  assumes "volume_iops \<noteq> 0"
    and "\<bar>volume_iops\<bar> < 2 ^ 53"
    and "\<forall>t. volume_throughput = Some t \<longrightarrow> converts_to_float t"
  shows "EbsVolumeThroughputIopsValidator str_float_div volume_type volume_iops volume_throughput =
     (case volume_throughput of
        None \<Rightarrow> Returned []
      | Some throughput \<Rightarrow>
          if volume_type = ''gp3'' \<and> throughput \<noteq> 0
             \<and> real_of_int throughput > real_of_int volume_iops * 0.25
          then Returned [\<lparr>message = ''Throughput to IOPS ratio of ''
                                      @ str_float_div throughput volume_iops
                                      @ '' is too high; maximum is 0.25.'',
                           level = ERROR, failed_params = [''volume_throughput'']\<rparr>]
          else Returned [])"
  using assms
  by (simp add: EbsVolumeThroughputIopsValidator_def format_float_div_cases py_float_exact
      converts_small Let_def add_failure_def split: option.splits)

lemma EbsVolumeThroughputIopsValidator_examples:
  "EbsVolumeThroughputIopsValidator str_fraction ''gp3'' 400 (Some 101)
     = Returned [\<lparr>message = ''Throughput to IOPS ratio of 101/400 is too high; maximum is 0.25.'',
                  level = ERROR, failed_params = [''volume_throughput'']\<rparr>]"
  "EbsVolumeThroughputIopsValidator str_fraction ''gp3'' 400 (Some 100) = Returned []"
  "EbsVolumeThroughputIopsValidator str_fraction ''gp3'' 400 None = Returned []"
  "EbsVolumeThroughputIopsValidator str_fraction ''gp2'' 400 (Some 101) = Returned []"
  by (simp_all add: EbsVolumeThroughputIopsValidator_nonzero_iops converts_small str_fraction_def
      str_int_eval)

text \<open>
  Claim C5 says that the validator emits an ERROR failure exactly when the type is gp3, the
  throughput is set and \<open>throughput > iops * 0.25\<close>. With \<open>volume_iops = 0\<close> and a throughput
  of 125 the condition holds, and the message's \<^verbatim>\<open>float(125) / float(0)\<close> raises
  ZeroDivisionError: no failure is recorded and the validator does not return.
\<close>

theorem EbsVolumeThroughputIopsValidator_gp3_zero_iops:
  "EbsVolumeThroughputIopsValidator str_fraction ''gp3'' 0 (Some 125)
     = Raised (ZeroDivisionError ''float division by zero'') []"
  by (simp add: EbsVolumeThroughputIopsValidator_def format_float_div_cases py_float_exact
      converts_small)

text \<open>
  Claim C9 says that the validator returns whenever \<open>volume_iops > 0\<close>, and that for gp3 with
  \<open>volume_iops = 0\<close> every positive throughput raises ZeroDivisionError. That holds for integers
  that convert to a float; a throughput from \<open>2^1024 - 2^970\<close> on makes \<^verbatim>\<open>float(throughput)\<close>
  raise OverflowError before the division is reached. Claim C9, as the code has it: when
  \<open>volume_iops\<close> and the throughput, if set, convert to a float, the validator returns whenever
  \<open>volume_iops > 0\<close>, and an exception leaves it exactly for gp3 with \<open>volume_iops = 0\<close> and a
  positive throughput; that exception is the ZeroDivisionError of the message's division,
  and nothing is recorded. For gp3 with \<open>volume_iops = 0\<close> and a positive throughput that does
  not convert, it raises OverflowError instead.
\<close>

theorem EbsVolumeThroughputIopsValidator_zero_iops_raises:
  "(0 < volume_iops \<and> converts_to_float volume_iops
      \<and> (\<forall>t. volume_throughput = Some t \<longrightarrow> converts_to_float t) \<longrightarrow>
      (\<exists>fs. EbsVolumeThroughputIopsValidator str_float_div volume_type volume_iops volume_throughput
              = Returned fs)) \<and>
   (0 < throughput \<and> converts_to_float throughput \<longrightarrow>
      EbsVolumeThroughputIopsValidator str_float_div ''gp3'' 0 (Some throughput)
        = Raised (ZeroDivisionError ''float division by zero'') []) \<and>
   (0 < throughput \<and> \<not> converts_to_float throughput \<longrightarrow>
      EbsVolumeThroughputIopsValidator str_float_div ''gp3'' 0 (Some throughput)
        = Raised (OverflowError ''int too large to convert to float'') []) \<and>
   (converts_to_float volume_iops \<and> (\<forall>t. volume_throughput = Some t \<longrightarrow> converts_to_float t) \<longrightarrow>
      ((\<exists>e fs. EbsVolumeThroughputIopsValidator str_float_div volume_type volume_iops volume_throughput
                = Raised e fs)
        \<longleftrightarrow> volume_type = ''gp3'' \<and> volume_iops = 0 \<and> (\<exists>t. volume_throughput = Some t \<and> 0 < t)))"
proof (intro conjI impI)
  assume a: "0 < volume_iops \<and> converts_to_float volume_iops
      \<and> (\<forall>t. volume_throughput = Some t \<longrightarrow> converts_to_float t)"
  then obtain x where "py_float volume_iops = Inr x"
    using py_float_value by blast
  with a show "\<exists>fs. EbsVolumeThroughputIopsValidator str_float_div volume_type volume_iops volume_throughput
              = Returned fs"
    by (simp add: EbsVolumeThroughputIopsValidator_def format_float_div_cases
        split: option.splits)
next
  assume "0 < throughput \<and> converts_to_float throughput"
  then show "EbsVolumeThroughputIopsValidator str_float_div ''gp3'' 0 (Some throughput)
        = Raised (ZeroDivisionError ''float division by zero'') []"
    by (simp add: EbsVolumeThroughputIopsValidator_def format_float_div_cases py_float_exact
        converts_small)
next
  assume "0 < throughput \<and> \<not> converts_to_float throughput"
  then show "EbsVolumeThroughputIopsValidator str_float_div ''gp3'' 0 (Some throughput)
        = Raised (OverflowError ''int too large to convert to float'') []"
    by (simp add: EbsVolumeThroughputIopsValidator_def format_float_div_cases py_float_exact)
next
  assume a: "converts_to_float volume_iops \<and> (\<forall>t. volume_throughput = Some t \<longrightarrow> converts_to_float t)"
  then obtain x where x: "py_float volume_iops = Inr x" "x = 0 \<longleftrightarrow> volume_iops = 0"
    using py_float_value by blast
  with a show "(\<exists>e fs. EbsVolumeThroughputIopsValidator str_float_div volume_type volume_iops volume_throughput
                = Raised e fs)
        \<longleftrightarrow> volume_type = ''gp3'' \<and> volume_iops = 0 \<and> (\<exists>t. volume_throughput = Some t \<and> 0 < t)"
    by (auto simp add: EbsVolumeThroughputIopsValidator_def format_float_div_cases
        split: option.splits)
qed

text \<open>The theorem at 400 IOPS with a throughput of 101, at 0 IOPS with a throughput of 1, and
  at 0 IOPS with a throughput of \<open>2^1024\<close>.\<close>

theorem EbsVolumeThroughputIopsValidator_zero_iops_raises_witness:
  "(\<exists>fs. EbsVolumeThroughputIopsValidator str_fraction ''gp3'' 400 (Some 101) = Returned fs) \<and>
   EbsVolumeThroughputIopsValidator str_fraction ''gp3'' 0 (Some 1)
     = Raised (ZeroDivisionError ''float division by zero'') [] \<and>
   EbsVolumeThroughputIopsValidator str_fraction ''gp3'' 0 (Some (2 ^ 1024))
     = Raised (OverflowError ''int too large to convert to float'') []"
proof -
  have c: "converts_to_float 400" "converts_to_float 101" "converts_to_float 1"
    by (simp_all add: converts_small)
  have n: "\<not> converts_to_float (2 ^ 1024)"
    using float_limit_le by (simp add: converts_to_float_def)
  have p: "(0::int) < 400" "(0::int) < 1" "(0::int) < 2 ^ 1024" by simp_all
  from EbsVolumeThroughputIopsValidator_zero_iops_raises
         [of 400 "Some 101" str_fraction "''gp3''" 1]
       EbsVolumeThroughputIopsValidator_zero_iops_raises
         [of 400 "Some 101" str_fraction "''gp3''" "2 ^ 1024"] c n p
  show ?thesis by simp
qed

text \<open>Against claim C9 as stated: with a throughput of \<open>2^1024\<close> the validator raises
  OverflowError, not ZeroDivisionError, at 0 IOPS, and it does not return at 1 IOPS.\<close>

theorem EbsVolumeThroughputIopsValidator_huge_throughput_counterexample:
  "EbsVolumeThroughputIopsValidator str_fraction ''gp3'' 0 (Some (2 ^ 1024))
     = Raised (OverflowError ''int too large to convert to float'') [] \<and>
   EbsVolumeThroughputIopsValidator str_fraction ''gp3'' 1 (Some (2 ^ 1024))
     = Raised (OverflowError ''int too large to convert to float'') []"
proof -
  have n: "\<not> converts_to_float (2 ^ 1024)"
    using float_limit_le by (simp add: converts_to_float_def)
  then show ?thesis
    by (simp add: EbsVolumeThroughputIopsValidator_def format_float_div_cases py_float_exact)
qed

text \<open>
  The IOPS validator away from \<open>volume_size = 0\<close>, for a type with IOPS bounds and a ratio, an
  IOPS value that is set (not 0), and values that convert to a float: outside the bounds one
  ERROR failure and no ratio check, inside them one ERROR failure exactly when the IOPS exceed
  size times ratio. It records at most one failure, and none for a type without bounds.
\<close>

lemma EbsVolumeIopsValidator_nonzero_size:
  assumes "EBS_VOLUME_IOPS_BOUNDS volume_type = Some (min_iops, max_iops)"
    and "EBS_VOLUME_TYPE_TO_IOPS_RATIO volume_type = Some ratio"
    and "iops \<noteq> 0"
    and "volume_size \<noteq> 0"
    and "converts_to_float iops"
    and "converts_to_float volume_size"
  shows "EbsVolumeIopsValidator EBS_VOLUME_IOPS_BOUNDS EBS_VOLUME_TYPE_TO_IOPS_RATIO str_float_div
           volume_type volume_size (Some iops) =
     (if iops < min_iops \<or> iops > max_iops then
        Returned [\<lparr>message = ''IOPS rate must be between '' @ str_int min_iops @ '' and ''
                                 @ str_int max_iops @ '' when provisioning '' @ volume_type @ '' volumes.'',
                    level = ERROR, failed_params = [''volume_iops'']\<rparr>]
      else if iops > volume_size * ratio then
        Returned [\<lparr>message = ''IOPS to volume size ratio of '' @ str_float_div iops volume_size
                                 @ '' is too high; maximum is '' @ str_int ratio @ ''.'',
                    level = ERROR, failed_params = [''volume_iops'']\<rparr>]
      else Returned [])"
  using assms
  by (simp add: EbsVolumeIopsValidator_def format_float_div_cases add_failure_def)

lemma EbsVolumeIopsValidator_no_bounds:
  "EBS_VOLUME_IOPS_BOUNDS volume_type = None \<Longrightarrow>
   EbsVolumeIopsValidator EBS_VOLUME_IOPS_BOUNDS EBS_VOLUME_TYPE_TO_IOPS_RATIO str_float_div
     volume_type volume_size volume_iops = Returned []"
  by (simp add: EbsVolumeIopsValidator_def)

lemma EbsVolumeIopsValidator_at_most_one:
  "EbsVolumeIopsValidator EBS_VOLUME_IOPS_BOUNDS EBS_VOLUME_TYPE_TO_IOPS_RATIO str_float_div
     volume_type volume_size volume_iops = Returned fs \<Longrightarrow> length fs \<le> 1"
  by (auto simp add: EbsVolumeIopsValidator_def format_float_div_cases add_failure_def
      split: option.splits if_splits prod.splits)

lemma EbsVolumeIopsValidator_zero_size:
  assumes "EBS_VOLUME_IOPS_BOUNDS volume_type = Some (min_iops, max_iops)"
    and "EBS_VOLUME_TYPE_TO_IOPS_RATIO volume_type = Some ratio"
    and "min_iops \<le> iops" and "iops \<le> max_iops" and "0 < iops"
    and "converts_to_float iops"
  shows "EbsVolumeIopsValidator EBS_VOLUME_IOPS_BOUNDS EBS_VOLUME_TYPE_TO_IOPS_RATIO str_float_div
           volume_type 0 (Some iops) = Raised (ZeroDivisionError ''float division by zero'') []"
  using assms
  by (simp add: EbsVolumeIopsValidator_def format_float_div_cases converts_small)

text \<open>
  Claim C6 says that for IOPS within the bounds the validator emits an ERROR when the IOPS
  exceed size times ratio. For io1 with bounds 100 to 64000 and ratio 50, a size of 0 and 100
  IOPS: the IOPS are within the bounds and above \<open>0 * 50\<close>, and the message's
  \<^verbatim>\<open>float(100) / float(0)\<close> raises ZeroDivisionError: no failure is recorded and the validator
  does not return.
\<close>

theorem EbsVolumeIopsValidator_io1_zero_size:
  "EbsVolumeIopsValidator [''io1'' \<mapsto> (100, 64000)] [''io1'' \<mapsto> 50] str_fraction ''io1'' 0 (Some 100)
     = Raised (ZeroDivisionError ''float division by zero'') []"
  by (simp add: EbsVolumeIopsValidator_def format_float_div_cases converts_small)

section \<open>Properties of the URL validator\<close>

lemma validate_s3_uri_no_match:
  "re_match s3_uri_pattern s3_url = None \<Longrightarrow>
   validate_s3_uri head_object s3_url fs =
     Raised (AttributeError (quoted ''NoneType'' @ '' object has no attribute '' @ quoted ''group''))
       (fs @ [\<lparr>message = ''s3 url '' @ quoted s3_url @ '' is invalid.'', level = ERROR,
                failed_params = []\<rparr>])"
  by (simp add: validate_s3_uri_def add_failure_def)

text \<open>Whatever the collaborators are, a url with scheme s3 that the pattern does not match
  makes the validator raise, after the failure has been recorded.\<close>

lemma UrlValidator_s3_no_match:
  "urlparse_scheme url = ''s3'' \<Longrightarrow> re_match s3_uri_pattern url = None \<Longrightarrow>
   UrlValidator urlparse_scheme urlopen head_object url =
     Raised (AttributeError (quoted ''NoneType'' @ '' object has no attribute '' @ quoted ''group''))
       [\<lparr>message = ''s3 url '' @ quoted url @ '' is invalid.'', level = ERROR, failed_params = []\<rparr>]"
  by (simp add: UrlValidator_def validate_s3_uri_no_match)

lemma bucket_only_no_match: "re_match s3_uri_pattern ''s3://bucket-only'' = None"
  by (simp add: s3_uri_pattern_def dot_matches_def)

lemma bucket_key_match: "re_match s3_uri_pattern ''s3://bucket/a/key'' = Some [''bucket'', ''a/key'']"
  by (simp add: s3_uri_pattern_def dot_matches_def)

text \<open>
  Claim C3 says that for a url of scheme s3 that does not match the pattern the validator
  produces an ERROR failure and returns. For \<^verbatim>\<open>s3://bucket-only\<close> the failure is recorded, and
  then \<^verbatim>\<open>match.group(1)\<close> on \<^verbatim>\<open>None\<close> raises AttributeError, which leaves the validator.
\<close>

theorem UrlValidator_s3_bucket_only_raises:
  "UrlValidator scheme_before_colon urlopen_ok head_object_ok ''s3://bucket-only'' =
     Raised (AttributeError (quoted ''NoneType'' @ '' object has no attribute '' @ quoted ''group''))
       [\<lparr>message = ''s3 url '' @ quoted ''s3://bucket-only'' @ '' is invalid.'', level = ERROR,
          failed_params = []\<rparr>]"
  by (simp add: UrlValidator_s3_no_match bucket_only_no_match scheme_before_colon_def)

section \<open>Properties of the stack listing\<close>

lemma startswith_prefix: "startswith s p = prefix p s"
  by (induction s p rule: startswith.induct) auto

lemma collect_pcluster_stacks_filter:
  "collect_pcluster_stacks pfx acc stacks =
     acc @ filter (\<lambda>stack. ParentId stack = None \<and> prefix pfx (StackName stack)) stacks"
  by (induction stacks arbitrary: acc) (simp_all add: startswith_prefix)

text \<open>
  Claim C8. For every sequence of stacks that the paginated call yields,
  \<open>list_pcluster_stacks\<close> returns exactly the stacks without a parent whose name starts with
  the prefix, in the order in which they came.
\<close>

theorem list_pcluster_stacks_filter:
  "list_pcluster_stacks PCLUSTER_STACK_PREFIX stacks =
     filter (\<lambda>stack. ParentId stack = None \<and> prefix PCLUSTER_STACK_PREFIX (StackName stack)) stacks"
  by (simp add: list_pcluster_stacks_def collect_pcluster_stacks_filter)

lemma list_pcluster_stacks_example:
  "list_pcluster_stacks ''parallelcluster-''
     [\<lparr>ParentId = None, StackName = ''parallelcluster-b''\<rparr>,
      \<lparr>ParentId = Some ''arn:parent'', StackName = ''parallelcluster-b-EBS''\<rparr>,
      \<lparr>ParentId = None, StackName = ''other''\<rparr>,
      \<lparr>ParentId = None, StackName = ''parallelcluster-a''\<rparr>]
   = [\<lparr>ParentId = None, StackName = ''parallelcluster-b''\<rparr>,
      \<lparr>ParentId = None, StackName = ''parallelcluster-a''\<rparr>]"
  by (simp add: list_pcluster_stacks_def)

section \<open>Properties of the reserved-tag check\<close>

lemma re_match_literals:
  "re_match (map Lit lits @ ps) s =
     (if prefix lits s then re_match ps (drop (length lits) s) else None)"
proof (induction lits arbitrary: s)
  case Nil
  then show ?case by simp
next
  case (Cons c cs)
  then show ?case by (cases s) auto
qed

lemma re_match_star_last: "\<exists>gs. re_match [StarChar c] s = Some gs"
  by (induction s) (auto split: option.splits)

lemma reserved_tag_pattern_matches:
  "(re_match reserved_tag_pattern k = None) = (\<not> prefix ''pcluster'' k)"
proof -
  obtain gs where "re_match [StarChar (CHR ''_'')] (drop (length ''pcluster'') k) = Some gs"
    using re_match_star_last by blast
  then show ?thesis
    unfolding reserved_tag_pattern_def re_match_literals by simp
qed

lemma validate_each_tag_eq:
  "validate_each_tag tags =
     (if \<exists>t \<in> set tags. prefix ''pcluster'' (key t) then Inl reserved_tag_message else Inr ())"
proof (induction tags)
  case Nil
  then show ?case by simp
next
  case (Cons t ts)
  show ?case
  proof (cases "prefix ''pcluster'' (key t)")
    case True
    then have "re_match reserved_tag_pattern (key t) \<noteq> None"
      by (simp add: reserved_tag_pattern_matches)
    with True show ?thesis by auto
  next
    case False
    then have "re_match reserved_tag_pattern (key t) = None"
      by (simp add: reserved_tag_pattern_matches)
    with False Cons show ?thesis by simp
  qed
qed

text \<open>
  Claim C10. \<open>validate_reserved_tag\<close> raises the ValidationError about the prefix "pcluster_"
  exactly when some tag's key begins with the letters "pcluster", underscore or not: the
  pattern's \<^verbatim>\<open>_*\<close> also matches no underscore at all, so "pcluster" and "pclusterXyz" are
  rejected too. Tags none of whose keys starts with "pcluster" are accepted, as is a missing
  list.
\<close>

theorem validate_reserved_tag_rejects_pcluster_keys:
  "validate_reserved_tag None = Inr () \<and>
   validate_reserved_tag (Some tags) =
     (if \<exists>t \<in> set tags. prefix ''pcluster'' (key t) then Inl reserved_tag_message else Inr ())"
  by (simp add: validate_reserved_tag_def validate_each_tag_eq)

text \<open>The theorem at the keys "pcluster", "pclusterXyz" and "pcluster_name", which are
  rejected, and at keys that do not begin with "pcluster", which are accepted.\<close>

theorem validate_reserved_tag_rejects_pcluster_keys_witness:
  "validate_reserved_tag (Some [\<lparr>key = ''Name'', val = ''x''\<rparr>, \<lparr>key = ''pcluster'', val = ''x''\<rparr>])
     = Inl reserved_tag_message \<and>
   validate_reserved_tag (Some [\<lparr>key = ''pclusterXyz'', val = ''x''\<rparr>]) = Inl reserved_tag_message \<and>
   validate_reserved_tag (Some [\<lparr>key = ''pcluster_name'', val = ''x''\<rparr>]) = Inl reserved_tag_message \<and>
   validate_reserved_tag (Some [\<lparr>key = ''Name'', val = ''x''\<rparr>, \<lparr>key = ''my_pcluster_'', val = ''x''\<rparr>,
                                \<lparr>key = ''pcluste'', val = ''x''\<rparr>]) = Inr ()"
proof -
  note t = validate_reserved_tag_rejects_pcluster_keys
  from t [of "[\<lparr>key = ''Name'', val = ''x''\<rparr>, \<lparr>key = ''pcluster'', val = ''x''\<rparr>]"]
       t [of "[\<lparr>key = ''pclusterXyz'', val = ''x''\<rparr>]"]
       t [of "[\<lparr>key = ''pcluster_name'', val = ''x''\<rparr>]"]
       t [of "[\<lparr>key = ''Name'', val = ''x''\<rparr>, \<lparr>key = ''my_pcluster_'', val = ''x''\<rparr>,
               \<lparr>key = ''pcluste'', val = ''x''\<rparr>]"]
  show ?thesis by simp
qed

end
